theory Spec2Isabelle
  imports Main "HOL-Library.State_Monad"
begin

section \<open>The BigQuery HTTP API wrapper (gcp/bigquery/\_api.py)\<close>

text \<open>
  The class \<open>Api\<close> builds one HTTP request per method and hands it to the external
  helper \<open>_util.Http.request\<close>. The development models the values that travel in a
  request, Python's \<open>%\<close> string formatting, the request each method builds, the
  methods themselves over a transport that is a parameter, and the calls of the
  methods on an instance that is state.
\<close>

subsection \<open>Python values\<close>

text \<open>
  The JSON-serialisable values of a body or of a query-argument mapping. A \<open>dict\<close>
  with string keys is a finite map: two dicts are equal when they hold the same
  values under the same keys, whatever the order of insertion.
\<close>

datatype pyval =
    PNone
  | PBool bool
  | PInt int
  | PStr string
  | PList "pyval list"
  | PDict "string \<Rightarrow> pyval option"

type_synonym pydict = "string \<Rightarrow> pyval option"

text \<open>An optional string parameter (\<open>None\<close> or a \<open>str\<close>) as a Python value.\<close>

fun of_str_option :: "string option \<Rightarrow> pyval" where
  "of_str_option None = PNone"
| "of_str_option (Some s) = PStr s"

text \<open>
  Truth value of an optional string parameter, as tested by \<open>if x:\<close>: \<open>None\<close> and
  the empty string are false, every other string is true.
\<close>

fun truthy :: "string option \<Rightarrow> bool" where
  "truthy None = False"
| "truthy (Some s) = (s \<noteq> [])"

subsection \<open>Errors\<close>

text \<open>
  \<open>TypeError\<close> is what \<open>template % args\<close> raises when the number of arguments does
  not fit the template; \<open>TransportError e\<close> is whatever the transport raised.
\<close>

datatype 'e error = TypeError | TransportError 'e

subsection \<open>String formatting with \<open>%s\<close>\<close>

text \<open>
  \<open>percent_format t as\<close> is \<open>t % tuple(as)\<close> for a template whose only conversion
  is \<open>%s\<close> and arguments that are strings: each \<open>%s\<close> takes the next argument,
  the substituted text is not scanned again, and the result is \<open>None\<close> when the
  arguments run out, when arguments are left over, or when \<open>%\<close> is followed by
  anything but \<open>s\<close> (no template of the class has such a conversion).
\<close>

fun percent_format :: "string \<Rightarrow> string list \<Rightarrow> string option" where
  "percent_format [] as = (if as = [] then Some [] else None)"
| "percent_format [c] as =
     (if c = CHR ''%'' then None else if as = [] then Some [c] else None)"
| "percent_format (c # d # rest) as =
     (if c = CHR ''%'' then
        (if d = CHR ''s'' then
           (case as of
              [] \<Rightarrow> None
            | a # as' \<Rightarrow> map_option (\<lambda>r. a @ r) (percent_format rest as'))
         else None)
      else map_option (\<lambda>r. c # r) (percent_format (d # rest) as))"

definition py_format :: "string \<Rightarrow> string list \<Rightarrow> 'e error + string" where
  "py_format t as = (case percent_format t as of None \<Rightarrow> Inl TypeError | Some s \<Rightarrow> Inr s)"

subsection \<open>The client context and the request descriptor\<close>

text \<open>
  An \<open>Api\<close> instance holds \<open>self._credentials\<close> (opaque, of any type \<open>'c\<close>) and
  \<open>self._project_id\<close>.
\<close>

record 'c Api =
  self_credentials :: 'c
  self_project_id :: string

definition Api_init :: "'c \<Rightarrow> string \<Rightarrow> 'c Api" where
  "Api_init credentials project_id =
     \<lparr>self_credentials = credentials, self_project_id = project_id\<rparr>"

definition project_id :: "'c Api \<Rightarrow> string" where
  "project_id self = self_project_id self"

text \<open>
  The arguments of one call of \<open>_util.Http.request(url, args=, data=, method=,
  credentials=)\<close>. A keyword the call site does not pass is \<open>None\<close>.
\<close>

record 'c request =
  req_url :: string
  req_args :: "pydict option"
  req_data :: "pydict option"
  req_method :: "string option"
  req_credentials :: 'c

subsection \<open>Class constants\<close>

definition ENDPOINT :: string where
  "ENDPOINT = ''https://www.googleapis.com/bigquery/v2''"

definition JOBS_PATH :: string where
  "JOBS_PATH = ''/projects/%s/jobs''"

definition QUERY_PATH :: string where
  "QUERY_PATH = ''/projects/%s/queries''"

definition QUERY_RESULT_PATH :: string where
  "QUERY_RESULT_PATH = ''/projects/%s/queries/%s''"

definition DATASETS_PATH :: string where
  "DATASETS_PATH = ''/projects/%s/datasets/%s''"

definition TABLES_PATH :: string where
  "TABLES_PATH = ''/projects/%s/datasets/%s/tables/%s''"

definition DEFAULT_PAGE_SIZE :: int where
  "DEFAULT_PAGE_SIZE = 10000"

definition DEFAULT_TIMEOUT :: int where
  "DEFAULT_TIMEOUT = 60000"

subsection \<open>The request each method builds\<close>

text \<open>
  \<open>jobs_insert_query\<close>. The local \<open>query_config\<close> is the dict stored under
  \<open>data['configuration']['query']\<close> itself, so what is written through it is
  written in the body that is sent. The parameter \<open>append\<close> is \<open>append_flag\<close>
  here (\<open>append\<close> is list concatenation in HOL).
\<close>

definition jobs_insert_query_request ::
  "'c Api \<Rightarrow> string \<Rightarrow> string option \<Rightarrow> string option \<Rightarrow> bool \<Rightarrow> bool \<Rightarrow> bool \<Rightarrow> bool
     \<Rightarrow> 'e error + 'c request" where
  "jobs_insert_query_request self sql dataset_id table_id append_flag overwrite dry_run use_cache =
     (case py_format JOBS_PATH [self_project_id self] of
        Inl e \<Rightarrow> Inl e
      | Inr path \<Rightarrow>
          let url = ENDPOINT @ path;
              query_config = [''query'' \<mapsto> PStr sql, ''useQueryCache'' \<mapsto> PBool use_cache];
              query_config =
                (if truthy dataset_id \<and> truthy table_id then
                   let query_config = query_config(''destinationTable'' \<mapsto> PDict
                         [''projectId'' \<mapsto> PStr (self_project_id self),
                          ''datasetId'' \<mapsto> of_str_option dataset_id,
                          ''tableId'' \<mapsto> of_str_option table_id])
                   in if append_flag then query_config(''writeDisposition'' \<mapsto> PStr ''WRITE_APPEND'')
                      else if overwrite then
                        query_config(''writeDisposition'' \<mapsto> PStr ''WRITE_TRUNCATE'')
                      else query_config
                 else query_config);
              data =
                [''kind'' \<mapsto> PStr ''bigquery#job'',
                 ''configuration'' \<mapsto> PDict
                   [''query'' \<mapsto> PDict query_config,
                    ''dryRun'' \<mapsto> PBool dry_run,
                    ''priority'' \<mapsto> PStr ''INTERACTIVE'']]
          in Inr \<lparr>req_url = url, req_args = None, req_data = Some data, req_method = None,
                  req_credentials = self_credentials self\<rparr>)"

definition jobs_query_request ::
  "'c Api \<Rightarrow> string \<Rightarrow> int \<Rightarrow> int option \<Rightarrow> bool \<Rightarrow> bool \<Rightarrow> 'e error + 'c request" where
  "jobs_query_request self sql page_size timeout dry_run use_cache =
     (let page_size = (if page_size = 0 then DEFAULT_PAGE_SIZE else page_size);
          timeout = (case timeout of None \<Rightarrow> DEFAULT_TIMEOUT | Some t \<Rightarrow> t)
      in case py_format QUERY_PATH [self_project_id self] of
           Inl e \<Rightarrow> Inl e
         | Inr path \<Rightarrow>
             let url = ENDPOINT @ path;
                 data =
                   [''kind'' \<mapsto> PStr ''bigquery#queryRequest'',
                    ''query'' \<mapsto> PStr sql,
                    ''maxResults'' \<mapsto> PInt page_size,
                    ''timeoutMs'' \<mapsto> PInt timeout,
                    ''dryRun'' \<mapsto> PBool dry_run,
                    ''useQueryCache'' \<mapsto> PBool use_cache]
             in Inr \<lparr>req_url = url, req_args = None, req_data = Some data, req_method = None,
                     req_credentials = self_credentials self\<rparr>)"

definition jobs_query_results_request ::
  "'c Api \<Rightarrow> string \<Rightarrow> int \<Rightarrow> int option \<Rightarrow> int \<Rightarrow> 'e error + 'c request" where
  "jobs_query_results_request self job_id page_size timeout start_index =
     (let page_size = (if page_size = 0 then DEFAULT_PAGE_SIZE else page_size);
          timeout = (case timeout of None \<Rightarrow> DEFAULT_TIMEOUT | Some t \<Rightarrow> t);
          args =
            [''maxResults'' \<mapsto> PInt page_size,
             ''timeoutMs'' \<mapsto> PInt timeout,
             ''startIndex'' \<mapsto> PInt start_index]
      in case py_format QUERY_RESULT_PATH [self_project_id self, job_id] of
           Inl e \<Rightarrow> Inl e
         | Inr path \<Rightarrow>
             Inr \<lparr>req_url = ENDPOINT @ path, req_args = Some args, req_data = None,
                  req_method = None, req_credentials = self_credentials self\<rparr>)"

definition datasets_insert_request ::
  "'c Api \<Rightarrow> string \<Rightarrow> string option \<Rightarrow> string option \<Rightarrow> 'e error + 'c request" where
  "datasets_insert_request self dataset_id friendly_name description =
     (case py_format DATASETS_PATH [self_project_id self, ''''] of
        Inl e \<Rightarrow> Inl e
      | Inr path \<Rightarrow>
          let url = ENDPOINT @ path;
              data =
                [''kind'' \<mapsto> PStr ''bigquery#dataset'',
                 ''datasetReference'' \<mapsto> PDict
                   [''projectId'' \<mapsto> PStr (self_project_id self),
                    ''datasetId'' \<mapsto> PStr dataset_id]];
              data = (if truthy friendly_name
                      then data(''friendlyName'' \<mapsto> of_str_option friendly_name) else data);
              data = (if truthy description
                      then data(''description'' \<mapsto> of_str_option description) else data)
          in Inr \<lparr>req_url = url, req_args = None, req_data = Some data, req_method = None,
                  req_credentials = self_credentials self\<rparr>)"

text \<open>
  \<open>datasets_delete\<close>. The local \<open>args\<close> of lines 196 to 198 is
  \<open>datasets_delete_args\<close>; the call of line 199 passes \<open>url\<close>, \<open>method\<close> and
  \<open>credentials\<close> only.
\<close>

definition datasets_delete_args :: "bool \<Rightarrow> pydict" where
  "datasets_delete_args delete_contents =
     (let args = Map.empty
      in if delete_contents then args(''deleteContents'' \<mapsto> PBool True) else args)"

definition datasets_delete_request :: "'c Api \<Rightarrow> string \<Rightarrow> bool \<Rightarrow> 'e error + 'c request" where
  "datasets_delete_request self dataset_id delete_contents =
     (case py_format DATASETS_PATH [self_project_id self, dataset_id] of
        Inl e \<Rightarrow> Inl e
      | Inr path \<Rightarrow>
          let url = ENDPOINT @ path;
              args = datasets_delete_args delete_contents
          in Inr \<lparr>req_url = url, req_args = None, req_data = None, req_method = Some ''DELETE'',
                  req_credentials = self_credentials self\<rparr>)"

definition datasets_get_request :: "'c Api \<Rightarrow> string \<Rightarrow> 'e error + 'c request" where
  "datasets_get_request self dataset_id =
     (case py_format DATASETS_PATH [self_project_id self, dataset_id] of
        Inl e \<Rightarrow> Inl e
      | Inr path \<Rightarrow>
          Inr \<lparr>req_url = ENDPOINT @ path, req_args = None, req_data = None, req_method = None,
               req_credentials = self_credentials self\<rparr>)"

text \<open>
  The paging arguments of \<open>datasets_list\<close> and \<open>tables_list\<close>: the two methods
  build \<open>args\<close> with the same five lines. \<open>page_token\<close> is tested with
  \<open>is not None\<close>, so an empty token is sent.
\<close>

definition list_args :: "int \<Rightarrow> string option \<Rightarrow> pydict" where
  "list_args max_results page_token =
     (let args = Map.empty;
          args = (if max_results \<noteq> 0 then args(''maxResults'' \<mapsto> PInt max_results) else args);
          args = (case page_token of
                    None \<Rightarrow> args
                  | Some t \<Rightarrow> args(''pageToken'' \<mapsto> PStr t))
      in args)"

definition datasets_list_request :: "'c Api \<Rightarrow> int \<Rightarrow> string option \<Rightarrow> 'e error + 'c request" where
  "datasets_list_request self max_results page_token =
     (case py_format DATASETS_PATH [self_project_id self, ''''] of
        Inl e \<Rightarrow> Inl e
      | Inr path \<Rightarrow>
          let url = ENDPOINT @ path;
              args = list_args max_results page_token
          in Inr \<lparr>req_url = url, req_args = Some args, req_data = None, req_method = None,
                  req_credentials = self_credentials self\<rparr>)"

text \<open>\<open>tables_get\<close>: \<open>name_parts\<close> is a tuple of strings, of any length.\<close>

definition tables_get_request :: "'c Api \<Rightarrow> string list \<Rightarrow> 'e error + 'c request" where
  "tables_get_request self name_parts =
     (case py_format TABLES_PATH name_parts of
        Inl e \<Rightarrow> Inl e
      | Inr path \<Rightarrow>
          Inr \<lparr>req_url = ENDPOINT @ path, req_args = None, req_data = None, req_method = None,
               req_credentials = self_credentials self\<rparr>)"

definition tables_list_request ::
  "'c Api \<Rightarrow> string \<Rightarrow> int \<Rightarrow> string option \<Rightarrow> 'e error + 'c request" where
  "tables_list_request self dataset_id max_results page_token =
     (case py_format TABLES_PATH [self_project_id self, dataset_id, ''''] of
        Inl e \<Rightarrow> Inl e
      | Inr path \<Rightarrow>
          let url = ENDPOINT @ path;
              args = list_args max_results page_token
          in Inr \<lparr>req_url = url, req_args = Some args, req_data = None, req_method = None,
                  req_credentials = self_credentials self\<rparr>)"

definition tables_insert_request ::
  "'c Api \<Rightarrow> string \<Rightarrow> string \<Rightarrow> pyval \<Rightarrow> string option \<Rightarrow> string option
     \<Rightarrow> 'e error + 'c request" where
  "tables_insert_request self dataset_id table_id schema friendly_name description =
     (case py_format TABLES_PATH [self_project_id self, dataset_id, ''''] of
        Inl e \<Rightarrow> Inl e
      | Inr path \<Rightarrow>
          let url = ENDPOINT @ path;
              data =
                [''kind'' \<mapsto> PStr ''bigquery#table'',
                 ''tableReference'' \<mapsto> PDict
                   [''projectId'' \<mapsto> PStr (self_project_id self),
                    ''datasetId'' \<mapsto> PStr dataset_id,
                    ''tableId'' \<mapsto> PStr table_id],
                 ''schema'' \<mapsto> PDict [''fields'' \<mapsto> schema]];
              data = (if truthy friendly_name
                      then data(''friendlyName'' \<mapsto> of_str_option friendly_name) else data);
              data = (if truthy description
                      then data(''description'' \<mapsto> of_str_option description) else data)
          in Inr \<lparr>req_url = url, req_args = None, req_data = Some data, req_method = None,
                  req_credentials = self_credentials self\<rparr>)"

definition tables_insertAll_request ::
  "'c Api \<Rightarrow> string \<Rightarrow> string \<Rightarrow> pyval \<Rightarrow> 'e error + 'c request" where
  "tables_insertAll_request self dataset_id table_id rows =
     (case py_format TABLES_PATH [self_project_id self, dataset_id, table_id] of
        Inl e \<Rightarrow> Inl e
      | Inr path \<Rightarrow>
          let url = ENDPOINT @ path @ ''/insertAll'';
              data =
                [''kind'' \<mapsto> PStr ''bigquery#tableDataInsertAllRequest'',
                 ''rows'' \<mapsto> rows]
          in Inr \<lparr>req_url = url, req_args = None, req_data = Some data, req_method = None,
                  req_credentials = self_credentials self\<rparr>)"

definition table_delete_request :: "'c Api \<Rightarrow> string \<Rightarrow> string \<Rightarrow> 'e error + 'c request" where
  "table_delete_request self dataset_id table_id =
     (case py_format TABLES_PATH [self_project_id self, dataset_id, table_id] of
        Inl e \<Rightarrow> Inl e
      | Inr path \<Rightarrow>
          Inr \<lparr>req_url = ENDPOINT @ path, req_args = None, req_data = None,
               req_method = Some ''DELETE'', req_credentials = self_credentials self\<rparr>)"

subsection \<open>The transport and the methods\<close>

text \<open>
  \<open>_util.Http.request\<close> is not part of the class: it is a parameter \<open>http\<close>. It
  reads and changes the world outside the program (the server, the network), of
  any type \<open>'w\<close>, and either raises an error of its own or returns the parsed
  response, a JSON object.
\<close>

type_synonym ('c, 'e, 'w) transport = "'c request \<Rightarrow> 'w \<Rightarrow> ('e + pydict) \<times> 'w"

text \<open>
  The last line of a method: an error raised while the request was built leaves the
  world as it is, the transport is called otherwise and its error propagates.
\<close>

definition Http_request ::
  "('c, 'e, 'w) transport \<Rightarrow> 'e error + 'c request \<Rightarrow> 'w \<Rightarrow> ('e error + pydict) \<times> 'w" where
  "Http_request http r w =
     (case r of
        Inl e \<Rightarrow> (Inl e, w)
      | Inr req \<Rightarrow>
          (case http req w of
             (Inl e, w') \<Rightarrow> (Inl (TransportError e), w')
           | (Inr response, w') \<Rightarrow> (Inr response, w')))"

text \<open>
  The end of \<open>datasets_insert\<close> and \<open>tables_insert\<close>:
  \<open>if 'selfLink' in response: return response['selfLink']\<close>, then \<open>return None\<close>.
\<close>

definition self_link :: "pydict \<Rightarrow> pyval" where
  "self_link response =
     (case response ''selfLink'' of Some v \<Rightarrow> v | None \<Rightarrow> PNone)"

definition jobs_insert_query ::
  "('c, 'e, 'w) transport \<Rightarrow> 'c Api \<Rightarrow> string \<Rightarrow> string option \<Rightarrow> string option \<Rightarrow> bool \<Rightarrow> bool
     \<Rightarrow> bool \<Rightarrow> bool \<Rightarrow> 'w \<Rightarrow> ('e error + pydict) \<times> 'w" where
  "jobs_insert_query http self sql dataset_id table_id append_flag overwrite dry_run use_cache =
     Http_request http
       (jobs_insert_query_request self sql dataset_id table_id append_flag overwrite dry_run
          use_cache)"

definition jobs_query ::
  "('c, 'e, 'w) transport \<Rightarrow> 'c Api \<Rightarrow> string \<Rightarrow> int \<Rightarrow> int option \<Rightarrow> bool \<Rightarrow> bool
     \<Rightarrow> 'w \<Rightarrow> ('e error + pydict) \<times> 'w" where
  "jobs_query http self sql page_size timeout dry_run use_cache =
     Http_request http (jobs_query_request self sql page_size timeout dry_run use_cache)"

definition jobs_query_results ::
  "('c, 'e, 'w) transport \<Rightarrow> 'c Api \<Rightarrow> string \<Rightarrow> int \<Rightarrow> int option \<Rightarrow> int
     \<Rightarrow> 'w \<Rightarrow> ('e error + pydict) \<times> 'w" where
  "jobs_query_results http self job_id page_size timeout start_index =
     Http_request http (jobs_query_results_request self job_id page_size timeout start_index)"

definition datasets_insert ::
  "('c, 'e, 'w) transport \<Rightarrow> 'c Api \<Rightarrow> string \<Rightarrow> string option \<Rightarrow> string option
     \<Rightarrow> 'w \<Rightarrow> ('e error + pyval) \<times> 'w" where
  "datasets_insert http self dataset_id friendly_name description w =
     (case Http_request http (datasets_insert_request self dataset_id friendly_name description) w of
        (Inl e, w') \<Rightarrow> (Inl e, w')
      | (Inr response, w') \<Rightarrow> (Inr (self_link response), w'))"

definition datasets_delete ::
  "('c, 'e, 'w) transport \<Rightarrow> 'c Api \<Rightarrow> string \<Rightarrow> bool \<Rightarrow> 'w \<Rightarrow> ('e error + pydict) \<times> 'w" where
  "datasets_delete http self dataset_id delete_contents =
     Http_request http (datasets_delete_request self dataset_id delete_contents)"

definition datasets_get ::
  "('c, 'e, 'w) transport \<Rightarrow> 'c Api \<Rightarrow> string \<Rightarrow> 'w \<Rightarrow> ('e error + pydict) \<times> 'w" where
  "datasets_get http self dataset_id = Http_request http (datasets_get_request self dataset_id)"

definition datasets_list ::
  "('c, 'e, 'w) transport \<Rightarrow> 'c Api \<Rightarrow> int \<Rightarrow> string option \<Rightarrow> 'w \<Rightarrow> ('e error + pydict) \<times> 'w" where
  "datasets_list http self max_results page_token =
     Http_request http (datasets_list_request self max_results page_token)"

definition tables_get ::
  "('c, 'e, 'w) transport \<Rightarrow> 'c Api \<Rightarrow> string list \<Rightarrow> 'w \<Rightarrow> ('e error + pydict) \<times> 'w" where
  "tables_get http self name_parts = Http_request http (tables_get_request self name_parts)"

definition tables_list ::
  "('c, 'e, 'w) transport \<Rightarrow> 'c Api \<Rightarrow> string \<Rightarrow> int \<Rightarrow> string option
     \<Rightarrow> 'w \<Rightarrow> ('e error + pydict) \<times> 'w" where
  "tables_list http self dataset_id max_results page_token =
     Http_request http (tables_list_request self dataset_id max_results page_token)"

definition tables_insert ::
  "('c, 'e, 'w) transport \<Rightarrow> 'c Api \<Rightarrow> string \<Rightarrow> string \<Rightarrow> pyval \<Rightarrow> string option \<Rightarrow> string option
     \<Rightarrow> 'w \<Rightarrow> ('e error + pyval) \<times> 'w" where
  "tables_insert http self dataset_id table_id schema friendly_name description w =
     (case Http_request http
             (tables_insert_request self dataset_id table_id schema friendly_name description) w of
        (Inl e, w') \<Rightarrow> (Inl e, w')
      | (Inr response, w') \<Rightarrow> (Inr (self_link response), w'))"

definition tables_insertAll ::
  "('c, 'e, 'w) transport \<Rightarrow> 'c Api \<Rightarrow> string \<Rightarrow> string \<Rightarrow> pyval
     \<Rightarrow> 'w \<Rightarrow> ('e error + pydict) \<times> 'w" where
  "tables_insertAll http self dataset_id table_id rows =
     Http_request http (tables_insertAll_request self dataset_id table_id rows)"

definition table_delete ::
  "('c, 'e, 'w) transport \<Rightarrow> 'c Api \<Rightarrow> string \<Rightarrow> string \<Rightarrow> 'w \<Rightarrow> ('e error + pydict) \<times> 'w" where
  "table_delete http self dataset_id table_id =
     Http_request http (table_delete_request self dataset_id table_id)"

subsection \<open>Calls on a live instance\<close>

text \<open>
  The methods above take the instance as a value. Here the instance is state: a
  computation runs on the pair of the instance (its two attributes) and the world,
  and returns the pair it leaves. Three things touch that state. Reading the
  attributes of \<open>self\<close> leaves it as it is. An assignment \<open>self._credentials = v\<close> or
  \<open>self._project_id = v\<close> changes the instance. The call of \<open>_util.Http.request\<close>
  is given the url, the keywords and the credentials, not the instance: it changes
  the world.
\<close>

definition get_self :: "('c Api \<times> 'w, 'c Api) state" where
  "get_self = State (\<lambda>s. (fst s, s))"

definition set_credentials :: "'c \<Rightarrow> ('c Api \<times> 'w, unit) state" where
  "set_credentials v = State (\<lambda>s. ((), ((fst s)\<lparr>self_credentials := v\<rparr>, snd s)))"

definition set_project_id :: "string \<Rightarrow> ('c Api \<times> 'w, unit) state" where
  "set_project_id v = State (\<lambda>s. ((), ((fst s)\<lparr>self_project_id := v\<rparr>, snd s)))"

definition request_op ::
  "('c, 'e, 'w) transport \<Rightarrow> 'e error + 'c request \<Rightarrow> ('c Api \<times> 'w, 'e error + pydict) state" where
  "request_op http r =
     State (\<lambda>s. case Http_request http r (snd s) of (response, w') \<Rightarrow> (response, (fst s, w')))"

text \<open>
  \<open>__init__\<close> (lines 42 and 43): the two assignments, on the new object, whatever
  it held. The parameter \<open>project_id\<close> is \<open>project\<close> here.
\<close>

definition Api_init_op :: "'c \<Rightarrow> string \<Rightarrow> ('c Api \<times> 'w, unit) state" where
  "Api_init_op credentials project =
     do {
       set_credentials credentials;
       set_project_id project
     }"

text \<open>The property \<open>project_id\<close>: \<open>return self._project_id\<close>.\<close>

definition project_id_op :: "('c Api \<times> 'w, string) state" where
  "project_id_op =
     do {
       self \<leftarrow> get_self;
       State_Monad.return (self_project_id self)
     }"

text \<open>
  Each method body reads \<open>self._project_id\<close> and \<open>self._credentials\<close> to build its
  request, calls the transport, and returns; the two insert methods look up
  \<open>selfLink\<close> first.
\<close>

definition jobs_insert_query_op ::
  "('c, 'e, 'w) transport \<Rightarrow> string \<Rightarrow> string option \<Rightarrow> string option \<Rightarrow> bool \<Rightarrow> bool \<Rightarrow> bool
     \<Rightarrow> bool \<Rightarrow> ('c Api \<times> 'w, 'e error + pydict) state" where
  "jobs_insert_query_op http sql dataset_id table_id append_flag overwrite dry_run use_cache =
     do {
       self \<leftarrow> get_self;
       request_op http
         (jobs_insert_query_request self sql dataset_id table_id append_flag overwrite dry_run
            use_cache)
     }"

definition jobs_query_op ::
  "('c, 'e, 'w) transport \<Rightarrow> string \<Rightarrow> int \<Rightarrow> int option \<Rightarrow> bool \<Rightarrow> bool
     \<Rightarrow> ('c Api \<times> 'w, 'e error + pydict) state" where
  "jobs_query_op http sql page_size timeout dry_run use_cache =
     do {
       self \<leftarrow> get_self;
       request_op http (jobs_query_request self sql page_size timeout dry_run use_cache)
     }"

definition jobs_query_results_op ::
  "('c, 'e, 'w) transport \<Rightarrow> string \<Rightarrow> int \<Rightarrow> int option \<Rightarrow> int
     \<Rightarrow> ('c Api \<times> 'w, 'e error + pydict) state" where
  "jobs_query_results_op http job_id page_size timeout start_index =
     do {
       self \<leftarrow> get_self;
       request_op http (jobs_query_results_request self job_id page_size timeout start_index)
     }"

definition datasets_insert_op ::
  "('c, 'e, 'w) transport \<Rightarrow> string \<Rightarrow> string option \<Rightarrow> string option
     \<Rightarrow> ('c Api \<times> 'w, 'e error + pyval) state" where
  "datasets_insert_op http dataset_id friendly_name description =
     do {
       self \<leftarrow> get_self;
       response \<leftarrow> request_op http
         (datasets_insert_request self dataset_id friendly_name description);
       State_Monad.return
         (case response of Inl e \<Rightarrow> Inl e | Inr response \<Rightarrow> Inr (self_link response))
     }"

definition datasets_delete_op ::
  "('c, 'e, 'w) transport \<Rightarrow> string \<Rightarrow> bool \<Rightarrow> ('c Api \<times> 'w, 'e error + pydict) state" where
  "datasets_delete_op http dataset_id delete_contents =
     do {
       self \<leftarrow> get_self;
       request_op http (datasets_delete_request self dataset_id delete_contents)
     }"

definition datasets_get_op ::
  "('c, 'e, 'w) transport \<Rightarrow> string \<Rightarrow> ('c Api \<times> 'w, 'e error + pydict) state" where
  "datasets_get_op http dataset_id =
     do {
       self \<leftarrow> get_self;
       request_op http (datasets_get_request self dataset_id)
     }"

definition datasets_list_op ::
  "('c, 'e, 'w) transport \<Rightarrow> int \<Rightarrow> string option \<Rightarrow> ('c Api \<times> 'w, 'e error + pydict) state" where
  "datasets_list_op http max_results page_token =
     do {
       self \<leftarrow> get_self;
       request_op http (datasets_list_request self max_results page_token)
     }"

definition tables_get_op ::
  "('c, 'e, 'w) transport \<Rightarrow> string list \<Rightarrow> ('c Api \<times> 'w, 'e error + pydict) state" where
  "tables_get_op http name_parts =
     do {
       self \<leftarrow> get_self;
       request_op http (tables_get_request self name_parts)
     }"

definition tables_list_op ::
  "('c, 'e, 'w) transport \<Rightarrow> string \<Rightarrow> int \<Rightarrow> string option
     \<Rightarrow> ('c Api \<times> 'w, 'e error + pydict) state" where
  "tables_list_op http dataset_id max_results page_token =
     do {
       self \<leftarrow> get_self;
       request_op http (tables_list_request self dataset_id max_results page_token)
     }"

definition tables_insert_op ::
  "('c, 'e, 'w) transport \<Rightarrow> string \<Rightarrow> string \<Rightarrow> pyval \<Rightarrow> string option \<Rightarrow> string option
     \<Rightarrow> ('c Api \<times> 'w, 'e error + pyval) state" where
  "tables_insert_op http dataset_id table_id schema friendly_name description =
     do {
       self \<leftarrow> get_self;
       response \<leftarrow> request_op http
         (tables_insert_request self dataset_id table_id schema friendly_name description);
       State_Monad.return
         (case response of Inl e \<Rightarrow> Inl e | Inr response \<Rightarrow> Inr (self_link response))
     }"

definition tables_insertAll_op ::
  "('c, 'e, 'w) transport \<Rightarrow> string \<Rightarrow> string \<Rightarrow> pyval
     \<Rightarrow> ('c Api \<times> 'w, 'e error + pydict) state" where
  "tables_insertAll_op http dataset_id table_id rows =
     do {
       self \<leftarrow> get_self;
       request_op http (tables_insertAll_request self dataset_id table_id rows)
     }"

definition table_delete_op ::
  "('c, 'e, 'w) transport \<Rightarrow> string \<Rightarrow> string \<Rightarrow> ('c Api \<times> 'w, 'e error + pydict) state" where
  "table_delete_op http dataset_id table_id =
     do {
       self \<leftarrow> get_self;
       request_op http (table_delete_request self dataset_id table_id)
     }"

subsection \<open>Sequences of calls on one instance\<close>

text \<open>
  One constructor per method of the class, with the method's arguments, and one for
  reading the property \<open>project_id\<close>.
\<close>

datatype call =
    Jobs_insert_query string "string option" "string option" bool bool bool bool
  | Jobs_query string int "int option" bool bool
  | Jobs_query_results string int "int option" int
  | Datasets_insert string "string option" "string option"
  | Datasets_delete string bool
  | Datasets_get string
  | Datasets_list int "string option"
  | Tables_get "string list"
  | Tables_list string int "string option"
  | Tables_insert string string pyval "string option" "string option"
  | Tables_insertAll string string pyval
  | Table_delete string string
  | Project_id

text \<open>A method that returns the transport's response returns a dict.\<close>

definition as_pyval :: "'e error + pydict \<Rightarrow> 'e error + pyval" where
  "as_pyval r = (case r of Inl e \<Rightarrow> Inl e | Inr response \<Rightarrow> Inr (PDict response))"

text \<open>
  \<open>invoke http c\<close> is the call \<open>c\<close> on the instance of the state: it returns what the
  method returns or raises.
\<close>

fun invoke :: "('c, 'e, 'w) transport \<Rightarrow> call \<Rightarrow> ('c Api \<times> 'w, 'e error + pyval) state" where
  "invoke http (Jobs_insert_query sql dataset_id table_id append_flag overwrite dry_run use_cache) =
     do {
       r \<leftarrow> jobs_insert_query_op http sql dataset_id table_id append_flag overwrite dry_run
              use_cache;
       State_Monad.return (as_pyval r)
     }"
| "invoke http (Jobs_query sql page_size timeout dry_run use_cache) =
     do {
       r \<leftarrow> jobs_query_op http sql page_size timeout dry_run use_cache;
       State_Monad.return (as_pyval r)
     }"
| "invoke http (Jobs_query_results job_id page_size timeout start_index) =
     do {
       r \<leftarrow> jobs_query_results_op http job_id page_size timeout start_index;
       State_Monad.return (as_pyval r)
     }"
| "invoke http (Datasets_insert dataset_id friendly_name description) =
     datasets_insert_op http dataset_id friendly_name description"
| "invoke http (Datasets_delete dataset_id delete_contents) =
     do {
       r \<leftarrow> datasets_delete_op http dataset_id delete_contents;
       State_Monad.return (as_pyval r)
     }"
| "invoke http (Datasets_get dataset_id) =
     do {
       r \<leftarrow> datasets_get_op http dataset_id;
       State_Monad.return (as_pyval r)
     }"
| "invoke http (Datasets_list max_results page_token) =
     do {
       r \<leftarrow> datasets_list_op http max_results page_token;
       State_Monad.return (as_pyval r)
     }"
| "invoke http (Tables_get name_parts) =
     do {
       r \<leftarrow> tables_get_op http name_parts;
       State_Monad.return (as_pyval r)
     }"
| "invoke http (Tables_list dataset_id max_results page_token) =
     do {
       r \<leftarrow> tables_list_op http dataset_id max_results page_token;
       State_Monad.return (as_pyval r)
     }"
| "invoke http (Tables_insert dataset_id table_id schema friendly_name description) =
     tables_insert_op http dataset_id table_id schema friendly_name description"
| "invoke http (Tables_insertAll dataset_id table_id rows) =
     do {
       r \<leftarrow> tables_insertAll_op http dataset_id table_id rows;
       State_Monad.return (as_pyval r)
     }"
| "invoke http (Table_delete dataset_id table_id) =
     do {
       r \<leftarrow> table_delete_op http dataset_id table_id;
       State_Monad.return (as_pyval r)
     }"
| "invoke http Project_id =
     do {
       p \<leftarrow> project_id_op;
       State_Monad.return (Inr (PStr p))
     }"

text \<open>
  A caller makes the calls one after the other on the same instance, whatever each
  returns or raises; each call runs in the state the call before it left.
\<close>

fun run :: "('c, 'e, 'w) transport \<Rightarrow> call list \<Rightarrow> ('c Api \<times> 'w, unit) state" where
  "run http [] = State_Monad.return ()"
| "run http (c # cs) =
     do {
       r \<leftarrow> invoke http c;
       run http cs
     }"

section \<open>Formatting the path templates\<close>

lemma format_JOBS_PATH:
  "py_format JOBS_PATH [p] = Inr (''/projects/'' @ p @ ''/jobs'')"
  by (simp add: py_format_def JOBS_PATH_def)

lemma format_QUERY_PATH:
  "py_format QUERY_PATH [p] = Inr (''/projects/'' @ p @ ''/queries'')"
  by (simp add: py_format_def QUERY_PATH_def)

lemma format_QUERY_RESULT_PATH:
  "py_format QUERY_RESULT_PATH [p, j] = Inr (''/projects/'' @ p @ ''/queries/'' @ j)"
  by (simp add: py_format_def QUERY_RESULT_PATH_def)

lemma format_DATASETS_PATH:
  "py_format DATASETS_PATH [p, d] = Inr (''/projects/'' @ p @ ''/datasets/'' @ d)"
  by (simp add: py_format_def DATASETS_PATH_def)

lemma format_TABLES_PATH:
  "py_format TABLES_PATH [p, d, t] =
     Inr (''/projects/'' @ p @ ''/datasets/'' @ d @ ''/tables/'' @ t)"
  by (simp add: py_format_def TABLES_PATH_def)

text \<open>A tuple that has not three parts does not fit the table template.\<close>

lemma format_TABLES_PATH_arity:
  "py_format TABLES_PATH name_parts =
     (case name_parts of
        [p, d, t] \<Rightarrow> Inr (''/projects/'' @ p @ ''/datasets/'' @ d @ ''/tables/'' @ t)
      | _ \<Rightarrow> Inl TypeError)"
  by (simp add: py_format_def TABLES_PATH_def split: list.splits)

section \<open>Properties of the requests\<close>

text \<open>
  Claim C1. The request \<open>jobs_insert_query\<close> hands to the transport always exists
  (the job path takes the one project id), is a request for the jobs collection of
  the instance's project, and its body is the job resource whose
  \<open>configuration.query\<close> dict \<open>query_config\<close> holds the query text and the cache flag.
  In that dict the key \<open>destinationTable\<close> is present exactly when both \<open>dataset_id\<close>
  and \<open>table_id\<close> are supplied and non-empty (neither \<open>None\<close> nor the empty string),
  and then it names the instance's project and the two ids as given. The key
  \<open>writeDisposition\<close> is \<open>WRITE_APPEND\<close> when a destination is attached and
  \<open>append\<close> is true, whatever \<open>overwrite\<close> is; \<open>WRITE_TRUNCATE\<close> when a destination
  is attached, \<open>append\<close> is false and \<open>overwrite\<close> is true; and it is absent when
  neither flag is set, and also whenever no destination is attached.
\<close>

theorem jobs_insert_query_destination:
  "jobs_insert_query http self sql dataset_id table_id append_flag overwrite dry_run use_cache w =
     Http_request http
       (jobs_insert_query_request self sql dataset_id table_id append_flag overwrite dry_run
          use_cache) w
   \<and> (\<exists>query_config.
        jobs_insert_query_request self sql dataset_id table_id append_flag overwrite dry_run
          use_cache =
          (Inr \<lparr>req_url = ENDPOINT @ ''/projects/'' @ self_project_id self @ ''/jobs'',
                req_args = None,
                req_data = Some
                  [''kind'' \<mapsto> PStr ''bigquery#job'',
                   ''configuration'' \<mapsto> PDict
                     [''query'' \<mapsto> PDict query_config,
                      ''dryRun'' \<mapsto> PBool dry_run,
                      ''priority'' \<mapsto> PStr ''INTERACTIVE'']],
                req_method = None,
                req_credentials = self_credentials self\<rparr> :: 'e error + 'c request)
      \<and> query_config ''query'' = Some (PStr sql)
      \<and> query_config ''useQueryCache'' = Some (PBool use_cache)
      \<and> (query_config ''destinationTable'' \<noteq> None) =
          (dataset_id \<notin> {None, Some ''''} \<and> table_id \<notin> {None, Some ''''})
      \<and> query_config ''destinationTable'' =
          (if dataset_id \<notin> {None, Some ''''} \<and> table_id \<notin> {None, Some ''''}
           then Some (PDict [''projectId'' \<mapsto> PStr (self_project_id self),
                             ''datasetId'' \<mapsto> of_str_option dataset_id,
                             ''tableId'' \<mapsto> of_str_option table_id])
           else None)
      \<and> query_config ''writeDisposition'' =
          (if dataset_id \<notin> {None, Some ''''} \<and> table_id \<notin> {None, Some ''''}
           then (if append_flag then Some (PStr ''WRITE_APPEND'')
                 else if overwrite then Some (PStr ''WRITE_TRUNCATE'')
                 else None)
           else None))"
proof -
  let ?both = "dataset_id \<notin> {None, Some ''''} \<and> table_id \<notin> {None, Some ''''}"
  let ?q0 = "[''query'' \<mapsto> PStr sql, ''useQueryCache'' \<mapsto> PBool use_cache]"
  let ?q1 = "?q0(''destinationTable'' \<mapsto> PDict
               [''projectId'' \<mapsto> PStr (self_project_id self),
                ''datasetId'' \<mapsto> of_str_option dataset_id,
                ''tableId'' \<mapsto> of_str_option table_id])"
  let ?q = "if ?both
            then (if append_flag then ?q1(''writeDisposition'' \<mapsto> PStr ''WRITE_APPEND'')
                  else if overwrite then ?q1(''writeDisposition'' \<mapsto> PStr ''WRITE_TRUNCATE'')
                  else ?q1)
            else ?q0"
  have both: "(truthy dataset_id \<and> truthy table_id) = ?both"
    by (cases dataset_id; cases table_id) auto
  have req: "jobs_insert_query_request self sql dataset_id table_id append_flag overwrite dry_run
          use_cache =
          (Inr \<lparr>req_url = ENDPOINT @ ''/projects/'' @ self_project_id self @ ''/jobs'',
                req_args = None,
                req_data = Some
                  [''kind'' \<mapsto> PStr ''bigquery#job'',
                   ''configuration'' \<mapsto> PDict
                     [''query'' \<mapsto> PDict ?q,
                      ''dryRun'' \<mapsto> PBool dry_run,
                      ''priority'' \<mapsto> PStr ''INTERACTIVE'']],
                req_method = None,
                req_credentials = self_credentials self\<rparr> :: 'e error + 'c request)"
    unfolding jobs_insert_query_request_def format_JOBS_PATH both
    by (simp add: Let_def)
  have call: "jobs_insert_query http self sql dataset_id table_id append_flag overwrite dry_run
      use_cache w =
     Http_request http
       (jobs_insert_query_request self sql dataset_id table_id append_flag overwrite dry_run
          use_cache) w"
    by (simp add: jobs_insert_query_def)
  show ?thesis
    unfolding req
    by (rule conjI, rule call [unfolded req], rule exI [of _ ?q]) simp
qed

text \<open>
  Claim C2. \<open>jobs_query\<close> and \<open>jobs_query_results\<close> hand to the transport a request
  that always exists; the first carries \<open>maxResults\<close> and \<open>timeoutMs\<close> in its body,
  the second in its query arguments. In both, \<open>maxResults\<close> is 10000 when
  \<open>page_size\<close> is 0 and \<open>page_size\<close> otherwise, and \<open>timeoutMs\<close> is 60000 when
  \<open>timeout\<close> is \<open>None\<close> and \<open>timeout\<close> otherwise. So the value 0 is never sent as
  \<open>maxResults\<close> and \<open>None\<close> is never sent as \<open>timeoutMs\<close>.
\<close>

theorem query_sentinels_replaced:
  "jobs_query http self sql page_size timeout dry_run use_cache w =
     Http_request http (jobs_query_request self sql page_size timeout dry_run use_cache) w
   \<and> jobs_query_results http self job_id page_size timeout start_index w =
     Http_request http (jobs_query_results_request self job_id page_size timeout start_index) w
   \<and> (\<exists>data.
        jobs_query_request self sql page_size timeout dry_run use_cache =
          (Inr \<lparr>req_url = ENDPOINT @ ''/projects/'' @ self_project_id self @ ''/queries'',
                req_args = None, req_data = Some data, req_method = None,
                req_credentials = self_credentials self\<rparr> :: 'e error + 'c request)
      \<and> data ''maxResults'' = Some (PInt (if page_size = 0 then 10000 else page_size))
      \<and> data ''timeoutMs'' = Some (PInt (case timeout of None \<Rightarrow> 60000 | Some t \<Rightarrow> t))
      \<and> data ''maxResults'' \<noteq> Some (PInt 0)
      \<and> data ''timeoutMs'' \<noteq> Some PNone)
   \<and> (\<exists>args.
        jobs_query_results_request self job_id page_size timeout start_index =
          (Inr \<lparr>req_url = ENDPOINT @ ''/projects/'' @ self_project_id self @ ''/queries/'' @ job_id,
                req_args = Some args, req_data = None, req_method = None,
                req_credentials = self_credentials self\<rparr> :: 'e error + 'c request)
      \<and> args ''maxResults'' = Some (PInt (if page_size = 0 then 10000 else page_size))
      \<and> args ''timeoutMs'' = Some (PInt (case timeout of None \<Rightarrow> 60000 | Some t \<Rightarrow> t))
      \<and> args ''maxResults'' \<noteq> Some (PInt 0)
      \<and> args ''timeoutMs'' \<noteq> Some PNone)"
proof -
  let ?size = "if page_size = 0 then 10000 else page_size"
  let ?time = "case timeout of None \<Rightarrow> 60000 | Some t \<Rightarrow> t"
  let ?data = "[''kind'' \<mapsto> PStr ''bigquery#queryRequest'', ''query'' \<mapsto> PStr sql,
                ''maxResults'' \<mapsto> PInt ?size, ''timeoutMs'' \<mapsto> PInt ?time,
                ''dryRun'' \<mapsto> PBool dry_run, ''useQueryCache'' \<mapsto> PBool use_cache]"
  let ?args = "[''maxResults'' \<mapsto> PInt ?size, ''timeoutMs'' \<mapsto> PInt ?time,
                ''startIndex'' \<mapsto> PInt start_index]"
  have q: "jobs_query_request self sql page_size timeout dry_run use_cache =
          (Inr \<lparr>req_url = ENDPOINT @ ''/projects/'' @ self_project_id self @ ''/queries'',
                req_args = None, req_data = Some ?data, req_method = None,
                req_credentials = self_credentials self\<rparr> :: 'e error + 'c request)"
    unfolding jobs_query_request_def format_QUERY_PATH
    by (simp add: Let_def DEFAULT_PAGE_SIZE_def DEFAULT_TIMEOUT_def split: option.split)
  have r: "jobs_query_results_request self job_id page_size timeout start_index =
          (Inr \<lparr>req_url = ENDPOINT @ ''/projects/'' @ self_project_id self @ ''/queries/'' @ job_id,
                req_args = Some ?args, req_data = None, req_method = None,
                req_credentials = self_credentials self\<rparr> :: 'e error + 'c request)"
    unfolding jobs_query_results_request_def format_QUERY_RESULT_PATH
    by (simp add: Let_def DEFAULT_PAGE_SIZE_def DEFAULT_TIMEOUT_def split: option.split)
  have ex_q: "\<exists>data.
        jobs_query_request self sql page_size timeout dry_run use_cache =
          (Inr \<lparr>req_url = ENDPOINT @ ''/projects/'' @ self_project_id self @ ''/queries'',
                req_args = None, req_data = Some data, req_method = None,
                req_credentials = self_credentials self\<rparr> :: 'e error + 'c request)
      \<and> data ''maxResults'' = Some (PInt (if page_size = 0 then 10000 else page_size))
      \<and> data ''timeoutMs'' = Some (PInt (case timeout of None \<Rightarrow> 60000 | Some t \<Rightarrow> t))
      \<and> data ''maxResults'' \<noteq> Some (PInt 0)
      \<and> data ''timeoutMs'' \<noteq> Some PNone"
    unfolding q by (rule exI [of _ ?data]) simp
  have ex_r: "\<exists>args.
        jobs_query_results_request self job_id page_size timeout start_index =
          (Inr \<lparr>req_url = ENDPOINT @ ''/projects/'' @ self_project_id self @ ''/queries/'' @ job_id,
                req_args = Some args, req_data = None, req_method = None,
                req_credentials = self_credentials self\<rparr> :: 'e error + 'c request)
      \<and> args ''maxResults'' = Some (PInt (if page_size = 0 then 10000 else page_size))
      \<and> args ''timeoutMs'' = Some (PInt (case timeout of None \<Rightarrow> 60000 | Some t \<Rightarrow> t))
      \<and> args ''maxResults'' \<noteq> Some (PInt 0)
      \<and> args ''timeoutMs'' \<noteq> Some PNone"
    unfolding r by (rule exI [of _ ?args]) simp
  show ?thesis
    using ex_q ex_r by (simp only: jobs_query_def jobs_query_results_def simp_thms)
qed

text \<open>
  Claim C3. With \<open>delete_contents\<close> true, \<open>datasets_delete\<close> builds the mapping
  \<open>{'deleteContents': True}\<close>, but the request it hands to the transport has no
  query arguments, whatever \<open>delete_contents\<close> is: the call with the flag set and the
  call with the flag cleared issue the same request and so have the same outcome.
\<close>

theorem datasets_delete_drops_args:
  "datasets_delete http self dataset_id delete_contents w =
     Http_request http (datasets_delete_request self dataset_id delete_contents) w
   \<and> datasets_delete_args True = [''deleteContents'' \<mapsto> PBool True]
   \<and> datasets_delete_request self dataset_id delete_contents =
       (Inr \<lparr>req_url = ENDPOINT @ ''/projects/'' @ self_project_id self @ ''/datasets/'' @ dataset_id,
             req_args = None, req_data = None, req_method = Some ''DELETE'',
             req_credentials = self_credentials self\<rparr> :: 'e error + 'c request)
   \<and> datasets_delete http self dataset_id True w = datasets_delete http self dataset_id False w"
  unfolding datasets_delete_def datasets_delete_request_def format_DATASETS_PATH
  by (simp add: Let_def datasets_delete_args_def)

text \<open>
  Claim C4. The call \<open>jobs_insert_query('SELECT 1', dataset_id='d1', table_id='t1',
  overwrite=True)\<close>, the other parameters at their defaults (\<open>append=False\<close>,
  \<open>dry_run=False\<close>, \<open>use_cache=True\<close>), hands to the transport exactly the body
  \<open>{'kind': 'bigquery#job', 'configuration': {'query': {'query': 'SELECT 1',
  'useQueryCache': True, 'destinationTable': {'projectId': P, 'datasetId': 'd1',
  'tableId': 't1'}, 'writeDisposition': 'WRITE_TRUNCATE'}, 'dryRun': False,
  'priority': 'INTERACTIVE'}}\<close>, where \<open>P\<close> is the \<open>project_id\<close> of the instance,
  posted to the jobs collection of that project.
\<close>

theorem jobs_insert_query_example:
  "jobs_insert_query http self ''SELECT 1'' (Some ''d1'') (Some ''t1'') False True False True w =
     Http_request http
       (Inr \<lparr>req_url = ENDPOINT @ ''/projects/'' @ project_id self @ ''/jobs'',
             req_args = None,
             req_data = Some
               [''kind'' \<mapsto> PStr ''bigquery#job'',
                ''configuration'' \<mapsto> PDict
                  [''query'' \<mapsto> PDict
                     [''query'' \<mapsto> PStr ''SELECT 1'',
                      ''useQueryCache'' \<mapsto> PBool True,
                      ''destinationTable'' \<mapsto> PDict
                        [''projectId'' \<mapsto> PStr (project_id self),
                         ''datasetId'' \<mapsto> PStr ''d1'',
                         ''tableId'' \<mapsto> PStr ''t1''],
                      ''writeDisposition'' \<mapsto> PStr ''WRITE_TRUNCATE''],
                   ''dryRun'' \<mapsto> PBool False,
                   ''priority'' \<mapsto> PStr ''INTERACTIVE'']],
             req_method = None,
             req_credentials = self_credentials self\<rparr>) w"
  unfolding jobs_insert_query_def jobs_insert_query_request_def format_JOBS_PATH project_id_def
  by (simp add: Let_def)

text \<open>
  Claim C5. \<open>datasets_insert\<close> and \<open>tables_insert\<close> always build a request. Whenever
  the transport answers that request with a response, the method returns the value
  stored under \<open>selfLink\<close> if the response has that key, and returns \<open>None\<close>, without
  raising, if the response has no such key. The world after the call is the one the
  transport left.
\<close>

theorem insert_returns_self_link:
  fixes http :: "('c, 'e, 'w) transport"
  shows
  "(\<exists>req.
      datasets_insert_request self dataset_id friendly_name description =
        (Inr req :: 'e error + 'c request)
    \<and> (\<forall>response w' v.
          http req w = (Inr response, w') \<longrightarrow>
            (response ''selfLink'' = Some v \<longrightarrow>
               datasets_insert http self dataset_id friendly_name description w = (Inr v, w'))
          \<and> (response ''selfLink'' = None \<longrightarrow>
               datasets_insert http self dataset_id friendly_name description w =
                 (Inr PNone, w'))))
   \<and> (\<exists>req.
      tables_insert_request self dataset_id table_id schema friendly_name description =
        (Inr req :: 'e error + 'c request)
    \<and> (\<forall>response w' v.
          http req w = (Inr response, w') \<longrightarrow>
            (response ''selfLink'' = Some v \<longrightarrow>
               tables_insert http self dataset_id table_id schema friendly_name description w =
                 (Inr v, w'))
          \<and> (response ''selfLink'' = None \<longrightarrow>
               tables_insert http self dataset_id table_id schema friendly_name description w =
                 (Inr PNone, w'))))"
proof (rule conjI)
  obtain req where req:
    "datasets_insert_request self dataset_id friendly_name description =
       (Inr req :: 'e error + 'c request)"
    unfolding datasets_insert_request_def format_DATASETS_PATH by (simp add: Let_def)
  show "\<exists>req.
      datasets_insert_request self dataset_id friendly_name description =
        (Inr req :: 'e error + 'c request)
    \<and> (\<forall>response w' v.
          http req w = (Inr response, w') \<longrightarrow>
            (response ''selfLink'' = Some v \<longrightarrow>
               datasets_insert http self dataset_id friendly_name description w = (Inr v, w'))
          \<and> (response ''selfLink'' = None \<longrightarrow>
               datasets_insert http self dataset_id friendly_name description w =
                 (Inr PNone, w')))"
    by (rule exI [of _ req])
       (simp add: req datasets_insert_def Http_request_def self_link_def)
next
  obtain req where req:
    "tables_insert_request self dataset_id table_id schema friendly_name description =
       (Inr req :: 'e error + 'c request)"
    unfolding tables_insert_request_def format_TABLES_PATH by (simp add: Let_def)
  show "\<exists>req.
      tables_insert_request self dataset_id table_id schema friendly_name description =
        (Inr req :: 'e error + 'c request)
    \<and> (\<forall>response w' v.
          http req w = (Inr response, w') \<longrightarrow>
            (response ''selfLink'' = Some v \<longrightarrow>
               tables_insert http self dataset_id table_id schema friendly_name description w =
                 (Inr v, w'))
          \<and> (response ''selfLink'' = None \<longrightarrow>
               tables_insert http self dataset_id table_id schema friendly_name description w =
                 (Inr PNone, w')))"
    by (rule exI [of _ req])
       (simp add: req tables_insert_def Http_request_def self_link_def)
qed

text \<open>
  The theorem at work: a transport that answers with a \<open>selfLink\<close>, and one that
  answers without, for each of the two methods.
\<close>

theorem insert_returns_self_link_witness:
  "datasets_insert (\<lambda>req w. (Inr [''selfLink'' \<mapsto> PStr ''https://host/d1''], w))
     (Api_init () ''p'') ''d1'' None None (0::nat) =
     (Inr (PStr ''https://host/d1'') :: unit error + pyval, 0)
   \<and> datasets_insert (\<lambda>req w. (Inr [''id'' \<mapsto> PStr ''p:d1''], w))
     (Api_init () ''p'') ''d1'' None None (0::nat) =
     (Inr PNone :: unit error + pyval, 0)
   \<and> tables_insert (\<lambda>req w. (Inr [''selfLink'' \<mapsto> PStr ''https://host/t1''], w))
     (Api_init () ''p'') ''d1'' ''t1'' (PList []) None None (0::nat) =
     (Inr (PStr ''https://host/t1'') :: unit error + pyval, 0)
   \<and> tables_insert (\<lambda>req w. (Inr [''id'' \<mapsto> PStr ''p:d1.t1''], w))
     (Api_init () ''p'') ''d1'' ''t1'' (PList []) None None (0::nat) =
     (Inr PNone :: unit error + pyval, 0)"
proof -
  let ?yes = "\<lambda>l. (\<lambda>req w. (Inr [''selfLink'' \<mapsto> PStr l], w)) :: (unit, unit, nat) transport"
  let ?no = "\<lambda>i. (\<lambda>req w. (Inr [''id'' \<mapsto> PStr i], w)) :: (unit, unit, nat) transport"
  have "datasets_insert (?yes ''https://host/d1'') (Api_init () ''p'') ''d1'' None None 0 =
      (Inr (PStr ''https://host/d1''), 0)"
    using insert_returns_self_link [of "Api_init () ''p''" "''d1''" None None
        "?yes ''https://host/d1''" 0]
    by auto
  moreover have "datasets_insert (?no ''p:d1'') (Api_init () ''p'') ''d1'' None None 0 =
      (Inr PNone, 0)"
    using insert_returns_self_link [of "Api_init () ''p''" "''d1''" None None "?no ''p:d1''" 0]
    by auto
  moreover have "tables_insert (?yes ''https://host/t1'') (Api_init () ''p'') ''d1'' ''t1''
      (PList []) None None 0 = (Inr (PStr ''https://host/t1''), 0)"
    using insert_returns_self_link [of "Api_init () ''p''" "''d1''" None None
        "?yes ''https://host/t1''" 0 "''t1''" "PList []"]
    by auto
  moreover have "tables_insert (?no ''p:d1.t1'') (Api_init () ''p'') ''d1'' ''t1''
      (PList []) None None 0 = (Inr PNone, 0)"
    using insert_returns_self_link [of "Api_init () ''p''" "''d1''" None None
        "?no ''p:d1.t1''" 0 "''t1''" "PList []"]
    by auto
  ultimately show ?thesis by simp
qed

text \<open>
  Claim C6. \<open>datasets_list\<close> and \<open>tables_list\<close> hand to the transport a request that
  always exists and carries query arguments. In them the key \<open>maxResults\<close> is absent
  when \<open>max_results\<close> is 0 and holds \<open>max_results\<close> itself otherwise; the key
  \<open>pageToken\<close> is absent when \<open>page_token\<close> is \<open>None\<close> and holds the token itself
  otherwise (an empty token included).
\<close>

theorem list_paging_args:
  "datasets_list http self max_results page_token w =
     Http_request http (datasets_list_request self max_results page_token) w
   \<and> tables_list http self dataset_id max_results page_token w =
     Http_request http (tables_list_request self dataset_id max_results page_token) w
   \<and> (\<exists>args.
        datasets_list_request self max_results page_token =
          (Inr \<lparr>req_url = ENDPOINT @ ''/projects/'' @ self_project_id self @ ''/datasets/'',
                req_args = Some args, req_data = None, req_method = None,
                req_credentials = self_credentials self\<rparr> :: 'e error + 'c request)
      \<and> args ''maxResults'' = (if max_results = 0 then None else Some (PInt max_results))
      \<and> args ''pageToken'' = (case page_token of None \<Rightarrow> None | Some t \<Rightarrow> Some (PStr t)))
   \<and> (\<exists>args.
        tables_list_request self dataset_id max_results page_token =
          (Inr \<lparr>req_url = ENDPOINT @ ''/projects/'' @ self_project_id self @ ''/datasets/''
                  @ dataset_id @ ''/tables/'',
                req_args = Some args, req_data = None, req_method = None,
                req_credentials = self_credentials self\<rparr> :: 'e error + 'c request)
      \<and> args ''maxResults'' = (if max_results = 0 then None else Some (PInt max_results))
      \<and> args ''pageToken'' = (case page_token of None \<Rightarrow> None | Some t \<Rightarrow> Some (PStr t)))"
proof -
  have args: "list_args max_results page_token ''maxResults'' =
        (if max_results = 0 then None else Some (PInt max_results))
     \<and> list_args max_results page_token ''pageToken'' =
        (case page_token of None \<Rightarrow> None | Some t \<Rightarrow> Some (PStr t))"
    by (simp add: list_args_def Let_def split: option.split)
  have d: "datasets_list_request self max_results page_token =
          (Inr \<lparr>req_url = ENDPOINT @ ''/projects/'' @ self_project_id self @ ''/datasets/'',
                req_args = Some (list_args max_results page_token), req_data = None,
                req_method = None,
                req_credentials = self_credentials self\<rparr> :: 'e error + 'c request)"
    unfolding datasets_list_request_def format_DATASETS_PATH by (simp add: Let_def)
  have t: "tables_list_request self dataset_id max_results page_token =
          (Inr \<lparr>req_url = ENDPOINT @ ''/projects/'' @ self_project_id self @ ''/datasets/''
                  @ dataset_id @ ''/tables/'',
                req_args = Some (list_args max_results page_token), req_data = None,
                req_method = None,
                req_credentials = self_credentials self\<rparr> :: 'e error + 'c request)"
    unfolding tables_list_request_def format_TABLES_PATH by (simp add: Let_def)
  have ex_d: "\<exists>args.
        datasets_list_request self max_results page_token =
          (Inr \<lparr>req_url = ENDPOINT @ ''/projects/'' @ self_project_id self @ ''/datasets/'',
                req_args = Some args, req_data = None, req_method = None,
                req_credentials = self_credentials self\<rparr> :: 'e error + 'c request)
      \<and> args ''maxResults'' = (if max_results = 0 then None else Some (PInt max_results))
      \<and> args ''pageToken'' = (case page_token of None \<Rightarrow> None | Some t \<Rightarrow> Some (PStr t))"
    unfolding d by (rule exI [of _ "list_args max_results page_token"]) (simp only: args simp_thms)
  have ex_t: "\<exists>args.
        tables_list_request self dataset_id max_results page_token =
          (Inr \<lparr>req_url = ENDPOINT @ ''/projects/'' @ self_project_id self @ ''/datasets/''
                  @ dataset_id @ ''/tables/'',
                req_args = Some args, req_data = None, req_method = None,
                req_credentials = self_credentials self\<rparr> :: 'e error + 'c request)
      \<and> args ''maxResults'' = (if max_results = 0 then None else Some (PInt max_results))
      \<and> args ''pageToken'' = (case page_token of None \<Rightarrow> None | Some t \<Rightarrow> Some (PStr t))"
    unfolding t by (rule exI [of _ "list_args max_results page_token"]) (simp only: args simp_thms)
  show ?thesis
    using ex_d ex_t by (simp only: datasets_list_def tables_list_def simp_thms)
qed

text \<open>
  Claim C7. \<open>table_delete\<close> and \<open>datasets_delete\<close> hand to the transport a request
  with the method \<open>DELETE\<close>, whose URL is the endpoint followed by the table path
  template (respectively the dataset path template) filled with the instance's
  project id and the ids the caller gave, unchanged.
\<close>

theorem delete_requests:
  "table_delete http self dataset_id table_id w =
     Http_request http
       (Inr \<lparr>req_url = ENDPOINT @ ''/projects/'' @ self_project_id self @ ''/datasets/''
               @ dataset_id @ ''/tables/'' @ table_id,
             req_args = None, req_data = None, req_method = Some ''DELETE'',
             req_credentials = self_credentials self\<rparr>) w
   \<and> datasets_delete http self dataset_id delete_contents w =
     Http_request http
       (Inr \<lparr>req_url = ENDPOINT @ ''/projects/'' @ self_project_id self @ ''/datasets/''
               @ dataset_id,
             req_args = None, req_data = None, req_method = Some ''DELETE'',
             req_credentials = self_credentials self\<rparr>) w"
  unfolding table_delete_def table_delete_request_def datasets_delete_def
    datasets_delete_request_def format_TABLES_PATH format_DATASETS_PATH
  by (simp add: Let_def)

subsection \<open>Optional fields of a body\<close>

text \<open>An optional string yields a value exactly when it is neither \<open>None\<close> nor empty.\<close>

lemma optional_supplied:
  "((case x of None \<Rightarrow> None | Some s \<Rightarrow> if s = '''' then None else Some (PStr s)) \<noteq> None) =
     (x \<notin> {None, Some ''''})"
  by (simp split: option.split)

text \<open>
  Claim C8. \<open>datasets_insert\<close> and \<open>tables_insert\<close> hand to the transport a request
  that always exists, whose body \<open>data\<close> is such that: the key \<open>friendlyName\<close> is
  present exactly when \<open>friendly_name\<close> is supplied and non-empty (neither \<open>None\<close> nor
  the empty string), and the key \<open>description\<close> exactly when \<open>description\<close> is
  supplied and non-empty. A key that is present holds the caller's string, unchanged.
  The method is the hand-off of the request with that body, followed by the look-up
  of \<open>selfLink\<close> in the response.
\<close>

theorem insert_optional_fields:
  fixes http :: "('c, 'e, 'w) transport"
  shows
  "(\<exists>data.
        datasets_insert_request self dataset_id friendly_name description =
          (Inr \<lparr>req_url = ENDPOINT @ ''/projects/'' @ self_project_id self @ ''/datasets/'',
                req_args = None, req_data = Some data, req_method = None,
                req_credentials = self_credentials self\<rparr> :: 'e error + 'c request)
      \<and> datasets_insert http self dataset_id friendly_name description w =
          (case Http_request http
                  (Inr \<lparr>req_url =
                          ENDPOINT @ ''/projects/'' @ self_project_id self @ ''/datasets/'',
                        req_args = None, req_data = Some data, req_method = None,
                        req_credentials = self_credentials self\<rparr>) w of
             (Inl e, w') \<Rightarrow> (Inl e, w')
           | (Inr response, w') \<Rightarrow> (Inr (self_link response), w'))
      \<and> (data ''friendlyName'' \<noteq> None) = (friendly_name \<notin> {None, Some ''''})
      \<and> data ''friendlyName'' =
          (case friendly_name of
             None \<Rightarrow> None
           | Some s \<Rightarrow> if s = '''' then None else Some (PStr s))
      \<and> (data ''description'' \<noteq> None) = (description \<notin> {None, Some ''''})
      \<and> data ''description'' =
          (case description of
             None \<Rightarrow> None
           | Some s \<Rightarrow> if s = '''' then None else Some (PStr s)))
   \<and> (\<exists>data.
        tables_insert_request self dataset_id table_id schema friendly_name description =
          (Inr \<lparr>req_url = ENDPOINT @ ''/projects/'' @ self_project_id self @ ''/datasets/''
                  @ dataset_id @ ''/tables/'',
                req_args = None, req_data = Some data, req_method = None,
                req_credentials = self_credentials self\<rparr> :: 'e error + 'c request)
      \<and> tables_insert http self dataset_id table_id schema friendly_name description w =
          (case Http_request http
                  (Inr \<lparr>req_url =
                          ENDPOINT @ ''/projects/'' @ self_project_id self @ ''/datasets/''
                            @ dataset_id @ ''/tables/'',
                        req_args = None, req_data = Some data, req_method = None,
                        req_credentials = self_credentials self\<rparr>) w of
             (Inl e, w') \<Rightarrow> (Inl e, w')
           | (Inr response, w') \<Rightarrow> (Inr (self_link response), w'))
      \<and> (data ''friendlyName'' \<noteq> None) = (friendly_name \<notin> {None, Some ''''})
      \<and> data ''friendlyName'' =
          (case friendly_name of
             None \<Rightarrow> None
           | Some s \<Rightarrow> if s = '''' then None else Some (PStr s))
      \<and> (data ''description'' \<noteq> None) = (description \<notin> {None, Some ''''})
      \<and> data ''description'' =
          (case description of
             None \<Rightarrow> None
           | Some s \<Rightarrow> if s = '''' then None else Some (PStr s)))"
proof (rule conjI)
  let ?d0 = "[''kind'' \<mapsto> PStr ''bigquery#dataset'',
              ''datasetReference'' \<mapsto> PDict
                [''projectId'' \<mapsto> PStr (self_project_id self),
                 ''datasetId'' \<mapsto> PStr dataset_id]]"
  let ?d1 = "if truthy friendly_name
             then ?d0(''friendlyName'' \<mapsto> of_str_option friendly_name) else ?d0"
  let ?d2 = "if truthy description
             then ?d1(''description'' \<mapsto> of_str_option description) else ?d1"
  have d: "datasets_insert_request self dataset_id friendly_name description =
          (Inr \<lparr>req_url = ENDPOINT @ ''/projects/'' @ self_project_id self @ ''/datasets/'',
                req_args = None, req_data = Some ?d2, req_method = None,
                req_credentials = self_credentials self\<rparr> :: 'e error + 'c request)"
    unfolding datasets_insert_request_def format_DATASETS_PATH by (simp add: Let_def)
  have d_name: "?d2 ''friendlyName'' =
      (case friendly_name of None \<Rightarrow> None | Some s \<Rightarrow> if s = '''' then None else Some (PStr s))"
    by (cases friendly_name) simp_all
  have d_descr: "?d2 ''description'' =
      (case description of None \<Rightarrow> None | Some s \<Rightarrow> if s = '''' then None else Some (PStr s))"
    by (cases description) simp_all
  show "\<exists>data.
        datasets_insert_request self dataset_id friendly_name description =
          (Inr \<lparr>req_url = ENDPOINT @ ''/projects/'' @ self_project_id self @ ''/datasets/'',
                req_args = None, req_data = Some data, req_method = None,
                req_credentials = self_credentials self\<rparr> :: 'e error + 'c request)
      \<and> datasets_insert http self dataset_id friendly_name description w =
          (case Http_request http
                  (Inr \<lparr>req_url =
                          ENDPOINT @ ''/projects/'' @ self_project_id self @ ''/datasets/'',
                        req_args = None, req_data = Some data, req_method = None,
                        req_credentials = self_credentials self\<rparr>) w of
             (Inl e, w') \<Rightarrow> (Inl e, w')
           | (Inr response, w') \<Rightarrow> (Inr (self_link response), w'))
      \<and> (data ''friendlyName'' \<noteq> None) = (friendly_name \<notin> {None, Some ''''})
      \<and> data ''friendlyName'' =
          (case friendly_name of
             None \<Rightarrow> None
           | Some s \<Rightarrow> if s = '''' then None else Some (PStr s))
      \<and> (data ''description'' \<noteq> None) = (description \<notin> {None, Some ''''})
      \<and> data ''description'' =
          (case description of
             None \<Rightarrow> None
           | Some s \<Rightarrow> if s = '''' then None else Some (PStr s))"
    unfolding datasets_insert_def d
    by (rule exI [of _ ?d2]) (simp only: d_name d_descr optional_supplied simp_thms)
next
  let ?t0 = "[''kind'' \<mapsto> PStr ''bigquery#table'',
              ''tableReference'' \<mapsto> PDict
                [''projectId'' \<mapsto> PStr (self_project_id self),
                 ''datasetId'' \<mapsto> PStr dataset_id,
                 ''tableId'' \<mapsto> PStr table_id],
              ''schema'' \<mapsto> PDict [''fields'' \<mapsto> schema]]"
  let ?t1 = "if truthy friendly_name
             then ?t0(''friendlyName'' \<mapsto> of_str_option friendly_name) else ?t0"
  let ?t2 = "if truthy description
             then ?t1(''description'' \<mapsto> of_str_option description) else ?t1"
  have t: "tables_insert_request self dataset_id table_id schema friendly_name description =
          (Inr \<lparr>req_url = ENDPOINT @ ''/projects/'' @ self_project_id self @ ''/datasets/''
                  @ dataset_id @ ''/tables/'',
                req_args = None, req_data = Some ?t2, req_method = None,
                req_credentials = self_credentials self\<rparr> :: 'e error + 'c request)"
    unfolding tables_insert_request_def format_TABLES_PATH by (simp add: Let_def)
  have t_name: "?t2 ''friendlyName'' =
      (case friendly_name of None \<Rightarrow> None | Some s \<Rightarrow> if s = '''' then None else Some (PStr s))"
    by (cases friendly_name) simp_all
  have t_descr: "?t2 ''description'' =
      (case description of None \<Rightarrow> None | Some s \<Rightarrow> if s = '''' then None else Some (PStr s))"
    by (cases description) simp_all
  show "\<exists>data.
        tables_insert_request self dataset_id table_id schema friendly_name description =
          (Inr \<lparr>req_url = ENDPOINT @ ''/projects/'' @ self_project_id self @ ''/datasets/''
                  @ dataset_id @ ''/tables/'',
                req_args = None, req_data = Some data, req_method = None,
                req_credentials = self_credentials self\<rparr> :: 'e error + 'c request)
      \<and> tables_insert http self dataset_id table_id schema friendly_name description w =
          (case Http_request http
                  (Inr \<lparr>req_url =
                          ENDPOINT @ ''/projects/'' @ self_project_id self @ ''/datasets/''
                            @ dataset_id @ ''/tables/'',
                        req_args = None, req_data = Some data, req_method = None,
                        req_credentials = self_credentials self\<rparr>) w of
             (Inl e, w') \<Rightarrow> (Inl e, w')
           | (Inr response, w') \<Rightarrow> (Inr (self_link response), w'))
      \<and> (data ''friendlyName'' \<noteq> None) = (friendly_name \<notin> {None, Some ''''})
      \<and> data ''friendlyName'' =
          (case friendly_name of
             None \<Rightarrow> None
           | Some s \<Rightarrow> if s = '''' then None else Some (PStr s))
      \<and> (data ''description'' \<noteq> None) = (description \<notin> {None, Some ''''})
      \<and> data ''description'' =
          (case description of
             None \<Rightarrow> None
           | Some s \<Rightarrow> if s = '''' then None else Some (PStr s))"
    unfolding tables_insert_def t
    by (rule exI [of _ ?t2]) (simp only: t_name t_descr optional_supplied simp_thms)
qed

subsection \<open>The instance across calls\<close>

text \<open>
  An assignment to an attribute changes the instance; the constructor makes two.
\<close>

lemma set_project_id_run:
  "run_state (set_project_id v) (self, w) = ((), self\<lparr>self_project_id := v\<rparr>, w)"
  by (simp add: set_project_id_def)

lemma set_credentials_run:
  "run_state (set_credentials v) (self, w) = ((), self\<lparr>self_credentials := v\<rparr>, w)"
  by (simp add: set_credentials_def)

lemma Api_init_op_run:
  "run_state (Api_init_op credentials project) (self, w) =
     ((), \<lparr>self_credentials = credentials, self_project_id = project\<rparr>, w)"
  by (simp add: Api_init_op_def set_credentials_def set_project_id_def)

lemma project_id_op_run:
  "run_state project_id_op (self, w) = (self_project_id self, self, w)"
  by (simp add: project_id_op_def get_self_def)

lemma project_id_op_reads: "fst (run_state project_id_op s) = self_project_id (fst s)"
  by (simp add: project_id_op_def get_self_def)

text \<open>
  Each method, called on the instance \<open>self\<close> in the world \<open>w\<close>, returns what the
  method of the section above returns for \<open>self\<close> and \<open>w\<close>, and leaves \<open>self\<close> and
  the world that method leaves.
\<close>

lemma jobs_insert_query_op_run:
  "run_state
     (jobs_insert_query_op http sql dataset_id table_id append_flag overwrite dry_run use_cache)
     (self, w) =
     (fst (jobs_insert_query http self sql dataset_id table_id append_flag overwrite dry_run
             use_cache w),
      self,
      snd (jobs_insert_query http self sql dataset_id table_id append_flag overwrite dry_run
             use_cache w))"
  by (simp add: jobs_insert_query_op_def jobs_insert_query_def get_self_def request_op_def
      split: prod.split)

lemma jobs_query_op_run:
  "run_state (jobs_query_op http sql page_size timeout dry_run use_cache) (self, w) =
     (fst (jobs_query http self sql page_size timeout dry_run use_cache w),
      self,
      snd (jobs_query http self sql page_size timeout dry_run use_cache w))"
  by (simp add: jobs_query_op_def jobs_query_def get_self_def request_op_def
      split: prod.split)

lemma jobs_query_results_op_run:
  "run_state (jobs_query_results_op http job_id page_size timeout start_index) (self, w) =
     (fst (jobs_query_results http self job_id page_size timeout start_index w),
      self,
      snd (jobs_query_results http self job_id page_size timeout start_index w))"
  by (simp add: jobs_query_results_op_def jobs_query_results_def get_self_def request_op_def
      split: prod.split)

lemma datasets_insert_op_run:
  "run_state (datasets_insert_op http dataset_id friendly_name description) (self, w) =
     (fst (datasets_insert http self dataset_id friendly_name description w),
      self,
      snd (datasets_insert http self dataset_id friendly_name description w))"
  by (simp add: datasets_insert_op_def datasets_insert_def get_self_def request_op_def
      split: prod.split sum.split)

lemma datasets_delete_op_run:
  "run_state (datasets_delete_op http dataset_id delete_contents) (self, w) =
     (fst (datasets_delete http self dataset_id delete_contents w),
      self,
      snd (datasets_delete http self dataset_id delete_contents w))"
  by (simp add: datasets_delete_op_def datasets_delete_def get_self_def request_op_def
      split: prod.split)

lemma datasets_get_op_run:
  "run_state (datasets_get_op http dataset_id) (self, w) =
     (fst (datasets_get http self dataset_id w),
      self,
      snd (datasets_get http self dataset_id w))"
  by (simp add: datasets_get_op_def datasets_get_def get_self_def request_op_def
      split: prod.split)

lemma datasets_list_op_run:
  "run_state (datasets_list_op http max_results page_token) (self, w) =
     (fst (datasets_list http self max_results page_token w),
      self,
      snd (datasets_list http self max_results page_token w))"
  by (simp add: datasets_list_op_def datasets_list_def get_self_def request_op_def
      split: prod.split)

lemma tables_get_op_run:
  "run_state (tables_get_op http name_parts) (self, w) =
     (fst (tables_get http self name_parts w),
      self,
      snd (tables_get http self name_parts w))"
  by (simp add: tables_get_op_def tables_get_def get_self_def request_op_def
      split: prod.split)

lemma tables_list_op_run:
  "run_state (tables_list_op http dataset_id max_results page_token) (self, w) =
     (fst (tables_list http self dataset_id max_results page_token w),
      self,
      snd (tables_list http self dataset_id max_results page_token w))"
  by (simp add: tables_list_op_def tables_list_def get_self_def request_op_def
      split: prod.split)

lemma tables_insert_op_run:
  "run_state (tables_insert_op http dataset_id table_id schema friendly_name description)
     (self, w) =
     (fst (tables_insert http self dataset_id table_id schema friendly_name description w),
      self,
      snd (tables_insert http self dataset_id table_id schema friendly_name description w))"
  by (simp add: tables_insert_op_def tables_insert_def get_self_def request_op_def
      split: prod.split sum.split)

lemma tables_insertAll_op_run:
  "run_state (tables_insertAll_op http dataset_id table_id rows) (self, w) =
     (fst (tables_insertAll http self dataset_id table_id rows w),
      self,
      snd (tables_insertAll http self dataset_id table_id rows w))"
  by (simp add: tables_insertAll_op_def tables_insertAll_def get_self_def request_op_def
      split: prod.split)

lemma table_delete_op_run:
  "run_state (table_delete_op http dataset_id table_id) (self, w) =
     (fst (table_delete http self dataset_id table_id w),
      self,
      snd (table_delete http self dataset_id table_id w))"
  by (simp add: table_delete_op_def table_delete_def get_self_def request_op_def
      split: prod.split)

text \<open>No call changes the instance, so no sequence of calls does.\<close>

lemma invoke_instance: "fst (snd (run_state (invoke http c) (self, w))) = self"
  by (cases c)
     (simp_all add: jobs_insert_query_op_run jobs_query_op_run jobs_query_results_op_run
        datasets_insert_op_run datasets_delete_op_run datasets_get_op_run datasets_list_op_run
        tables_get_op_run tables_list_op_run tables_insert_op_run tables_insertAll_op_run
        table_delete_op_run project_id_op_run)

lemma run_instance: "fst (snd (run_state (run http calls) (self, w))) = self"
proof (induction calls arbitrary: w)
  case Nil
  show ?case by simp
next
  case (Cons c calls)
  obtain r self' w' where step: "run_state (invoke http c) (self, w) = (r, self', w')"
    by (metis prod.exhaust)
  have "self' = self"
    using invoke_instance [of http c self w] step by simp
  then show ?case
    using Cons.IH [of w'] step by simp
qed

text \<open>
  Claim C9. Build an instance with \<open>Api(credentials, project)\<close> on a new object,
  whatever it held, then make any sequence of calls of the methods and of the
  property, over any transport and from any state of the world, whatever the calls
  return or raise: the instance still holds the credentials and the project id given
  at construction, and its property \<open>project_id\<close> still reads that project id.
  The sequence runs call after call, each in the state the call before it left. Each
  single call leaves the instance as it found it: on the instance \<open>self\<close> in the world
  \<open>w\<close> it returns what the method returns for \<open>self\<close> and \<open>w\<close>, and leaves \<open>self\<close> and
  the world the method leaves.
\<close>

theorem context_unchanged:
  "fst (snd (run_state (do { Api_init_op credentials project; run http calls }) (self0, w0))) =
     \<lparr>self_credentials = credentials, self_project_id = project\<rparr>
   \<and> self_credentials
        (fst (snd (run_state (do { Api_init_op credentials project; run http calls }) (self0, w0))))
       = credentials
   \<and> self_project_id
        (fst (snd (run_state (do { Api_init_op credentials project; run http calls }) (self0, w0))))
       = project
   \<and> fst (run_state project_id_op
        (snd (run_state (do { Api_init_op credentials project; run http calls }) (self0, w0))))
       = project
   \<and> run_state (run http []) (self, w) = ((), self, w)
   \<and> run_state (run http (c # calls)) (self, w) =
       run_state (run http calls) (snd (run_state (invoke http c) (self, w)))
   \<and> fst (snd (run_state (invoke http c) (self, w))) = self
   \<and> run_state
        (invoke http
           (Jobs_insert_query sql destination_dataset destination_table append_flag overwrite
              dry_run use_cache)) (self, w) =
       (as_pyval (fst (jobs_insert_query http self sql destination_dataset destination_table
                         append_flag overwrite dry_run use_cache w)),
        self,
        snd (jobs_insert_query http self sql destination_dataset destination_table
               append_flag overwrite dry_run use_cache w))
   \<and> run_state (invoke http (Jobs_query sql page_size timeout dry_run use_cache)) (self, w) =
       (as_pyval (fst (jobs_query http self sql page_size timeout dry_run use_cache w)),
        self,
        snd (jobs_query http self sql page_size timeout dry_run use_cache w))
   \<and> run_state (invoke http (Jobs_query_results job_id page_size timeout start_index)) (self, w) =
       (as_pyval (fst (jobs_query_results http self job_id page_size timeout start_index w)),
        self,
        snd (jobs_query_results http self job_id page_size timeout start_index w))
   \<and> run_state (invoke http (Datasets_insert dataset_id friendly_name description)) (self, w) =
       (fst (datasets_insert http self dataset_id friendly_name description w),
        self,
        snd (datasets_insert http self dataset_id friendly_name description w))
   \<and> run_state (invoke http (Datasets_delete dataset_id delete_contents)) (self, w) =
       (as_pyval (fst (datasets_delete http self dataset_id delete_contents w)),
        self,
        snd (datasets_delete http self dataset_id delete_contents w))
   \<and> run_state (invoke http (Datasets_get dataset_id)) (self, w) =
       (as_pyval (fst (datasets_get http self dataset_id w)),
        self,
        snd (datasets_get http self dataset_id w))
   \<and> run_state (invoke http (Datasets_list max_results page_token)) (self, w) =
       (as_pyval (fst (datasets_list http self max_results page_token w)),
        self,
        snd (datasets_list http self max_results page_token w))
   \<and> run_state (invoke http (Tables_get name_parts)) (self, w) =
       (as_pyval (fst (tables_get http self name_parts w)),
        self,
        snd (tables_get http self name_parts w))
   \<and> run_state (invoke http (Tables_list dataset_id max_results page_token)) (self, w) =
       (as_pyval (fst (tables_list http self dataset_id max_results page_token w)),
        self,
        snd (tables_list http self dataset_id max_results page_token w))
   \<and> run_state
        (invoke http (Tables_insert dataset_id table_id schema friendly_name description))
        (self, w) =
       (fst (tables_insert http self dataset_id table_id schema friendly_name description w),
        self,
        snd (tables_insert http self dataset_id table_id schema friendly_name description w))
   \<and> run_state (invoke http (Tables_insertAll dataset_id table_id rows)) (self, w) =
       (as_pyval (fst (tables_insertAll http self dataset_id table_id rows w)),
        self,
        snd (tables_insertAll http self dataset_id table_id rows w))
   \<and> run_state (invoke http (Table_delete dataset_id table_id)) (self, w) =
       (as_pyval (fst (table_delete http self dataset_id table_id w)),
        self,
        snd (table_delete http self dataset_id table_id w))
   \<and> run_state (invoke http Project_id) (self, w) = (Inr (PStr (project_id self)), self, w)"
proof -
  let ?s = "snd (run_state (do { Api_init_op credentials project; run http calls }) (self0, w0))"
  have final: "fst ?s = \<lparr>self_credentials = credentials, self_project_id = project\<rparr>"
    by (simp add: Api_init_op_run run_instance)
  have read: "fst (run_state project_id_op ?s) = project"
    unfolding project_id_op_reads final by simp
  have step: "run_state (run http (c # calls)) (self, w) =
       run_state (run http calls) (snd (run_state (invoke http c) (self, w)))"
    by (simp split: prod.split)
  show ?thesis
    unfolding final read step
    by (simp add: invoke_instance jobs_insert_query_op_run jobs_query_op_run
        jobs_query_results_op_run datasets_insert_op_run datasets_delete_op_run
        datasets_get_op_run datasets_list_op_run tables_get_op_run tables_list_op_run
        tables_insert_op_run tables_insertAll_op_run table_delete_op_run project_id_op_run
        project_id_def)
qed

subsection \<open>The URL of each request\<close>

text \<open>
  The request of \<open>tables_get\<close> in closed form: a tuple of three parts fills the
  three slots of the table template, any other tuple raises \<open>TypeError\<close>. The
  project id of the instance plays no part in it.
\<close>

lemma tables_get_request_eq:
  "tables_get_request self name_parts =
     (case name_parts of
        [p, d, t] \<Rightarrow>
          Inr \<lparr>req_url = ENDPOINT @ ''/projects/'' @ p @ ''/datasets/'' @ d @ ''/tables/'' @ t,
               req_args = None, req_data = None, req_method = None,
               req_credentials = self_credentials self\<rparr>
      | _ \<Rightarrow> (Inl TypeError :: 'e error + 'c request))"
  unfolding tables_get_request_def format_TABLES_PATH_arity
  by (simp split: list.split)

lemma tables_get_request_project:
  "tables_get_request (self\<lparr>self_project_id := other\<rparr>) name_parts =
     (tables_get_request self name_parts :: 'e error + 'c request)"
  by (simp add: tables_get_request_def cong: sum.case_cong)

lemma tables_get_request_three:
  "tables_get_request self [p, d, t] =
     (Inr \<lparr>req_url = ENDPOINT @ ''/projects/'' @ p @ ''/datasets/'' @ d @ ''/tables/'' @ t,
           req_args = None, req_data = None, req_method = None,
           req_credentials = self_credentials self\<rparr> :: 'e error + 'c request)"
  unfolding tables_get_request_def format_TABLES_PATH by simp

text \<open>
  The URL of every other request starts with the endpoint, \<open>/projects/\<close> and the
  project id of the instance.
\<close>

lemma jobs_insert_query_request_url:
  "\<exists>req. jobs_insert_query_request self sql dataset_id table_id append_flag overwrite dry_run
            use_cache = (Inr req :: 'e error + 'c request)
      \<and> req_url req = ENDPOINT @ ''/projects/'' @ self_project_id self @ ''/jobs''"
  unfolding jobs_insert_query_request_def format_JOBS_PATH by (simp add: Let_def)

lemma jobs_query_request_url:
  "\<exists>req. jobs_query_request self sql page_size timeout dry_run use_cache =
            (Inr req :: 'e error + 'c request)
      \<and> req_url req = ENDPOINT @ ''/projects/'' @ self_project_id self @ ''/queries''"
  unfolding jobs_query_request_def format_QUERY_PATH by (simp add: Let_def)

lemma jobs_query_results_request_url:
  "\<exists>req. jobs_query_results_request self job_id page_size timeout start_index =
            (Inr req :: 'e error + 'c request)
      \<and> req_url req = ENDPOINT @ ''/projects/'' @ self_project_id self @ ''/queries/'' @ job_id"
  unfolding jobs_query_results_request_def format_QUERY_RESULT_PATH by (simp add: Let_def)

lemma datasets_insert_request_url:
  "\<exists>req. datasets_insert_request self dataset_id friendly_name description =
            (Inr req :: 'e error + 'c request)
      \<and> req_url req = ENDPOINT @ ''/projects/'' @ self_project_id self @ ''/datasets/''"
  unfolding datasets_insert_request_def format_DATASETS_PATH by (simp add: Let_def)

lemma datasets_delete_request_url:
  "\<exists>req. datasets_delete_request self dataset_id delete_contents =
            (Inr req :: 'e error + 'c request)
      \<and> req_url req =
          ENDPOINT @ ''/projects/'' @ self_project_id self @ ''/datasets/'' @ dataset_id"
  unfolding datasets_delete_request_def format_DATASETS_PATH by (simp add: Let_def)

lemma datasets_get_request_url:
  "\<exists>req. datasets_get_request self dataset_id = (Inr req :: 'e error + 'c request)
      \<and> req_url req =
          ENDPOINT @ ''/projects/'' @ self_project_id self @ ''/datasets/'' @ dataset_id"
  unfolding datasets_get_request_def format_DATASETS_PATH by simp

lemma datasets_list_request_url:
  "\<exists>req. datasets_list_request self max_results page_token =
            (Inr req :: 'e error + 'c request)
      \<and> req_url req = ENDPOINT @ ''/projects/'' @ self_project_id self @ ''/datasets/''"
  unfolding datasets_list_request_def format_DATASETS_PATH by (simp add: Let_def)

lemma tables_list_request_url:
  "\<exists>req. tables_list_request self dataset_id max_results page_token =
            (Inr req :: 'e error + 'c request)
      \<and> req_url req =
          ENDPOINT @ ''/projects/'' @ self_project_id self @ ''/datasets/'' @ dataset_id
            @ ''/tables/''"
  unfolding tables_list_request_def format_TABLES_PATH by (simp add: Let_def)

lemma tables_insert_request_url:
  "\<exists>req. tables_insert_request self dataset_id table_id schema friendly_name description =
            (Inr req :: 'e error + 'c request)
      \<and> req_url req =
          ENDPOINT @ ''/projects/'' @ self_project_id self @ ''/datasets/'' @ dataset_id
            @ ''/tables/''"
  unfolding tables_insert_request_def format_TABLES_PATH by (simp add: Let_def)

lemma tables_insertAll_request_url:
  "\<exists>req. tables_insertAll_request self dataset_id table_id rows =
            (Inr req :: 'e error + 'c request)
      \<and> req_url req =
          ENDPOINT @ ''/projects/'' @ self_project_id self @ ''/datasets/'' @ dataset_id
            @ ''/tables/'' @ table_id @ ''/insertAll''"
  unfolding tables_insertAll_request_def format_TABLES_PATH by (simp add: Let_def)

lemma table_delete_request_url:
  "\<exists>req. table_delete_request self dataset_id table_id = (Inr req :: 'e error + 'c request)
      \<and> req_url req =
          ENDPOINT @ ''/projects/'' @ self_project_id self @ ''/datasets/'' @ dataset_id
            @ ''/tables/'' @ table_id"
  unfolding table_delete_request_def format_TABLES_PATH by simp

text \<open>
  Claim C10. The request of \<open>tables_get\<close> is formed from \<open>name_parts\<close> alone: a tuple
  of three parts fills the three slots of the table path template (any other tuple
  raises \<open>TypeError\<close>), and the request is the same whatever project id the instance
  holds. So there are tuples for which the project segment of the URL is not the
  instance's \<open>project_id\<close>. Every other method roots its URL at the instance's
  project: it starts with the endpoint, \<open>/projects/\<close> and the instance's project id.
\<close>

theorem tables_get_ignores_project_id:
  "tables_get http self name_parts w = Http_request http (tables_get_request self name_parts) w
   \<and> tables_get_request self name_parts =
       (case name_parts of
          [p, d, t] \<Rightarrow>
            Inr \<lparr>req_url = ENDPOINT @ ''/projects/'' @ p @ ''/datasets/'' @ d @ ''/tables/'' @ t,
                 req_args = None, req_data = None, req_method = None,
                 req_credentials = self_credentials self\<rparr>
        | _ \<Rightarrow> (Inl TypeError :: 'e error + 'c request))
   \<and> tables_get_request (self\<lparr>self_project_id := other\<rparr>) name_parts =
       (tables_get_request self name_parts :: 'e error + 'c request)
   \<and> (\<exists>p d t. p \<noteq> self_project_id self
        \<and> tables_get_request self [p, d, t] =
            (Inr \<lparr>req_url = ENDPOINT @ ''/projects/'' @ p @ ''/datasets/'' @ d @ ''/tables/'' @ t,
                 req_args = None, req_data = None, req_method = None,
                 req_credentials = self_credentials self\<rparr> :: 'e error + 'c request))
   \<and> (\<exists>req. jobs_insert_query_request self sql destination_dataset destination_table append_flag
              overwrite dry_run use_cache = (Inr req :: 'e error + 'c request)
        \<and> req_url req = ENDPOINT @ ''/projects/'' @ self_project_id self @ ''/jobs'')
   \<and> (\<exists>req. jobs_query_request self sql page_size timeout dry_run use_cache =
              (Inr req :: 'e error + 'c request)
        \<and> req_url req = ENDPOINT @ ''/projects/'' @ self_project_id self @ ''/queries'')
   \<and> (\<exists>req. jobs_query_results_request self job_id page_size timeout start_index =
              (Inr req :: 'e error + 'c request)
        \<and> req_url req =
            ENDPOINT @ ''/projects/'' @ self_project_id self @ ''/queries/'' @ job_id)
   \<and> (\<exists>req. datasets_insert_request self dataset_id friendly_name description =
              (Inr req :: 'e error + 'c request)
        \<and> req_url req = ENDPOINT @ ''/projects/'' @ self_project_id self @ ''/datasets/'')
   \<and> (\<exists>req. datasets_delete_request self dataset_id delete_contents =
              (Inr req :: 'e error + 'c request)
        \<and> req_url req =
            ENDPOINT @ ''/projects/'' @ self_project_id self @ ''/datasets/'' @ dataset_id)
   \<and> (\<exists>req. datasets_get_request self dataset_id = (Inr req :: 'e error + 'c request)
        \<and> req_url req =
            ENDPOINT @ ''/projects/'' @ self_project_id self @ ''/datasets/'' @ dataset_id)
   \<and> (\<exists>req. datasets_list_request self max_results page_token =
              (Inr req :: 'e error + 'c request)
        \<and> req_url req = ENDPOINT @ ''/projects/'' @ self_project_id self @ ''/datasets/'')
   \<and> (\<exists>req. tables_list_request self dataset_id max_results page_token =
              (Inr req :: 'e error + 'c request)
        \<and> req_url req =
            ENDPOINT @ ''/projects/'' @ self_project_id self @ ''/datasets/'' @ dataset_id
              @ ''/tables/'')
   \<and> (\<exists>req. tables_insert_request self dataset_id table_id schema friendly_name description =
              (Inr req :: 'e error + 'c request)
        \<and> req_url req =
            ENDPOINT @ ''/projects/'' @ self_project_id self @ ''/datasets/'' @ dataset_id
              @ ''/tables/'')
   \<and> (\<exists>req. tables_insertAll_request self dataset_id table_id rows =
              (Inr req :: 'e error + 'c request)
        \<and> req_url req =
            ENDPOINT @ ''/projects/'' @ self_project_id self @ ''/datasets/'' @ dataset_id
              @ ''/tables/'' @ table_id @ ''/insertAll'')
   \<and> (\<exists>req. table_delete_request self dataset_id table_id = (Inr req :: 'e error + 'c request)
        \<and> req_url req =
            ENDPOINT @ ''/projects/'' @ self_project_id self @ ''/datasets/'' @ dataset_id
              @ ''/tables/'' @ table_id)"
proof -
  have ne: "CHR ''x'' # self_project_id self \<noteq> self_project_id self"
    by simp
  have ex: "\<exists>p d t. p \<noteq> self_project_id self
        \<and> tables_get_request self [p, d, t] =
            (Inr \<lparr>req_url = ENDPOINT @ ''/projects/'' @ p @ ''/datasets/'' @ d @ ''/tables/'' @ t,
                 req_args = None, req_data = None, req_method = None,
                 req_credentials = self_credentials self\<rparr> :: 'e error + 'c request)"
    by (rule exI [of _ "CHR ''x'' # self_project_id self"], rule exI [of _ "''d''"],
        rule exI [of _ "''t''"], rule conjI, rule ne, rule tables_get_request_three)
  have call: "tables_get http self name_parts w =
      Http_request http (tables_get_request self name_parts) w"
    by (simp add: tables_get_def)
  show ?thesis
    by (intro conjI call tables_get_request_eq tables_get_request_project ex
        jobs_insert_query_request_url jobs_query_request_url jobs_query_results_request_url
        datasets_insert_request_url datasets_delete_request_url datasets_get_request_url
        datasets_list_request_url tables_list_request_url tables_insert_request_url
        tables_insertAll_request_url table_delete_request_url)
qed

end
